theory Spec2Isabelle
  imports Complex_Main "HOL-Library.Sublist"
begin

section \<open>Exceptions and the workflow state\<close>

text \<open>
  A Python exception is a value: its class, as far as an \<^verbatim>\<open>except\<close> clause of the
  sources tells classes apart, and the text that \<^verbatim>\<open>str(e)\<close> returns. Only subclasses
  of \<^verbatim>\<open>Exception\<close> are modelled: every handler of the sources is \<^verbatim>\<open>except Exception\<close>
  or narrower. An \<^verbatim>\<open>HTTPException\<close> carries its status code and its detail.
\<close>

datatype exn_class =
  AttributeError | TypeError | TimeoutError | HTTPException nat string | OtherException

datatype exn = Exn (exc_class: exn_class) (exc_str: string)

text \<open>
  \<^verbatim>\<open>OptimizedWorkflowState\<close> (graph/states.py) is a typed dictionary; a key that is
  absent is \<open>None\<close>. The payload type \<open>'p\<close> is whatever the agent produces.
\<close>

record 'p state =
  pdf_path :: "string option"
  status :: "string option"
  comprehensive_analysis :: "'p option"
  errors :: "string list option"
  api_calls_used :: "int option"
  feedback_required :: "bool option"
  feedback_text :: "string option"

section \<open>The agent and its three call conventions (graph/nodes.py)\<close>

text \<open>
  What the agent returns: an object that may have an \<^verbatim>\<open>output\<close> attribute, a
  \<^verbatim>\<open>result\<close> attribute, or neither; \<open>bare\<close> is the object itself taken as payload.
\<close>

datatype 'p agent_result =
  AgentResult (output_attr: "'p option") (result_attr: "'p option") (bare: 'p)

type_synonym ('c, 'p) convention = "string \<Rightarrow> 'c \<Rightarrow> exn + 'p agent_result"

text \<open>
  The agent object: the name of its type and, for each call convention, the awaited
  behaviour of the method when the object has it (\<open>None\<close>: the attribute is missing,
  respectively the object is not callable).
\<close>

record ('c, 'p) agent =
  type_name :: string
  run_async :: "('c, 'p) convention option"
  run :: "('c, 'p) convention option"
  call :: "('c, 'p) convention option"

definition no_attribute :: "('c, 'p) agent \<Rightarrow> string \<Rightarrow> exn" where
  "no_attribute ag attr =
     Exn AttributeError
       ([CHR 0x27] @ type_name ag @ [CHR 0x27] @ '' object has no attribute '' @
        [CHR 0x27] @ attr @ [CHR 0x27])"

definition not_callable :: "('c, 'p) agent \<Rightarrow> exn" where
  "not_callable ag =
     Exn TypeError ([CHR 0x27] @ type_name ag @ [CHR 0x27] @ '' object is not callable'')"

definition call_run_async :: "('c, 'p) agent \<Rightarrow> ('c, 'p) convention" where
  "call_run_async ag prompt deps =
     (case run_async ag of None \<Rightarrow> Inl (no_attribute ag ''run_async'') | Some f \<Rightarrow> f prompt deps)"

definition call_run :: "('c, 'p) agent \<Rightarrow> ('c, 'p) convention" where
  "call_run ag prompt deps =
     (case run ag of None \<Rightarrow> Inl (no_attribute ag ''run'') | Some f \<Rightarrow> f prompt deps)"

definition call_direct :: "('c, 'p) agent \<Rightarrow> ('c, 'p) convention" where
  "call_direct ag prompt deps =
     (case call ag of None \<Rightarrow> Inl (not_callable ag) | Some f \<Rightarrow> f prompt deps)"

text \<open>
  Lines 27 to 33 of nodes.py: \<^verbatim>\<open>run_async\<close>, on \<^verbatim>\<open>AttributeError\<close> \<^verbatim>\<open>run\<close>, on
  \<^verbatim>\<open>AttributeError\<close> the direct call. Any other exception leaves the chain.
\<close>

definition execute_analysis :: "('c, 'p) agent \<Rightarrow> ('c, 'p) convention" where
  "execute_analysis ag prompt deps =
     (case call_run_async ag prompt deps of
        Inr r \<Rightarrow> Inr r
      | Inl e \<Rightarrow>
          if exc_class e = AttributeError then
            (case call_run ag prompt deps of
               Inr r \<Rightarrow> Inr r
             | Inl e' \<Rightarrow>
                 if exc_class e' = AttributeError then call_direct ag prompt deps
                 else Inl e')
          else Inl e)"

text \<open>
  The chain as the specification words it: the first of the three conventions, in this
  order, that succeeds. It is compared with \<open>execute_analysis\<close> below.
\<close>

definition first_that_succeeds :: "('c, 'p) agent \<Rightarrow> ('c, 'p) convention" where
  "first_that_succeeds ag prompt deps =
     (case call_run_async ag prompt deps of
        Inr r \<Rightarrow> Inr r
      | Inl e \<Rightarrow>
          (case call_run ag prompt deps of
             Inr r \<Rightarrow> Inr r
           | Inl e' \<Rightarrow> call_direct ag prompt deps))"

definition raises_attribute_error :: "exn + 'a \<Rightarrow> bool" where
  "raises_attribute_error x =
     (case x of Inl e \<Rightarrow> exc_class e = AttributeError | Inr _ \<Rightarrow> False)"

definition raises_other :: "exn + 'a \<Rightarrow> bool" where
  "raises_other x = (case x of Inl e \<Rightarrow> exc_class e \<noteq> AttributeError | Inr _ \<Rightarrow> False)"

definition nl :: string where
  "nl = [CHR 0x0A]"

definition str_of_path :: "string option \<Rightarrow> string" where
  "str_of_path p = (case p of None \<Rightarrow> ''None'' | Some s \<Rightarrow> s)"

definition analysis_prompt :: "string option \<Rightarrow> string" where
  "analysis_prompt p =
     nl @ ''        Perform comprehensive script analysis for: '' @ str_of_path p @ nl @
     ''        '' @ nl @
     ''        STEP 1: Extract the script text using extract_script_from_pdf_tool'' @ nl @
     ''        STEP 2: Analyze ALL aspects and return complete ComprehensiveAnalysis'' @ nl @
     ''        '' @ nl @
     ''        This should take exactly 2 API calls total.'' @ nl @
     ''        ''"

definition analysis_data_of :: "'p agent_result \<Rightarrow> 'p" where
  "analysis_data_of r =
     (case output_attr r of
        Some d \<Rightarrow> d
      | None \<Rightarrow> (case result_attr r of Some d \<Rightarrow> d | None \<Rightarrow> bare r))"

text \<open>
  The body of the \<^verbatim>\<open>try\<close> block up to the result: the context is built (the
  constructor \<^verbatim>\<open>AnalysisContext\<close> belongs to the agents package; it is the parameter
  \<open>mk_context\<close> and may raise), then the agent is invoked.
\<close>

definition try_analysis ::
  "(string option \<Rightarrow> exn + 'c) \<Rightarrow> ('c, 'p) agent \<Rightarrow> string option \<Rightarrow> exn + 'p agent_result"
where
  "try_analysis mk_context ag p =
     (case mk_context p of
        Inl e \<Rightarrow> Inl e
      | Inr context \<Rightarrow> execute_analysis ag (analysis_prompt p) context)"

definition get_errors :: "'p state \<Rightarrow> string list" where
  "get_errors s = (case errors s of None \<Rightarrow> [] | Some es \<Rightarrow> es)"

definition analyst_agent_node ::
  "(string option \<Rightarrow> exn + 'c) \<Rightarrow> ('c, 'p) agent \<Rightarrow> 'p state \<Rightarrow> 'p state"
where
  "analyst_agent_node mk_context ag s =
     (case try_analysis mk_context ag (pdf_path s) of
        Inr r \<Rightarrow>
          s\<lparr>comprehensive_analysis := Some (analysis_data_of r),
            status := Some ''analysis_completed'',
            api_calls_used := Some 2\<rparr>
      | Inl e \<Rightarrow>
          s\<lparr>status := Some (''analysis_failed: '' @ exc_str e),
            errors := Some (get_errors s @ [exc_str e]),
            api_calls_used := Some 1\<rparr>)"

definition human_feedback_node :: "'p state \<Rightarrow> 'p state" where
  "human_feedback_node s =
     (let s1 = (if feedback_required s = None then s\<lparr>feedback_required := Some False\<rparr> else s);
          s2 = (if feedback_text s1 = None then s1\<lparr>feedback_text := Some ''''\<rparr> else s1)
      in s2\<lparr>feedback_required := Some False, status := Some ''analysis_completed''\<rparr>)"

section \<open>Routing and the compiled graph (graph/workflow.py)\<close>

definition should_continue_or_end :: "'p state \<Rightarrow> string" where
  "should_continue_or_end s =
     (let flag = (case feedback_required s of None \<Rightarrow> False | Some b \<Rightarrow> b)
      in if flag then ''unified_analysis'' else ''END'')"

datatype target = END | Node string

definition entry_point :: string where
  "entry_point = ''analyst_agent''"

definition conditional_edges :: "(string \<times> target) list" where
  "conditional_edges = [(''END'', END), (''analyst_agent'', Node ''analyst_agent'')]"

datatype graph_error = KeyError string | UnknownNode string

text \<open>
  The conditional edge out of \<open>human_feedback\<close>: the routing function is called on the
  state and its value looked up in the mapping; a value that is not a key of the mapping
  is a \<open>KeyError\<close>.
\<close>

definition next_after_feedback :: "'p state \<Rightarrow> graph_error + target" where
  "next_after_feedback s =
     (case map_of conditional_edges (should_continue_or_end s) of
        None \<Rightarrow> Inl (KeyError (should_continue_or_end s))
      | Some t \<Rightarrow> Inr t)"

text \<open>
  The compiled graph, run from a node: \<open>analyst_agent\<close> has the one edge to
  \<open>human_feedback\<close>, and \<open>human_feedback\<close> the conditional edge. Each node returns the
  whole state, which replaces the old one. The agent is external and need not answer
  twice alike: \<open>agents k\<close> is the agent as it behaves at the \<open>k\<close>-th run of the analysis
  node. The list records the nodes run so far. The graph has a cycle, so the run is a
  partial function: no result is \<open>None\<close>.
\<close>

partial_function (option) run_from ::
  "(string option \<Rightarrow> exn + 'c) \<Rightarrow> (nat \<Rightarrow> ('c, 'p) agent) \<Rightarrow> string \<Rightarrow> nat \<Rightarrow> string list \<Rightarrow>
   'p state \<Rightarrow> (graph_error + 'p state \<times> string list) option"
where
  "run_from mk_context agents n k visited s =
     (if n = ''analyst_agent'' then
        run_from mk_context agents ''human_feedback'' (Suc k) (visited @ [n])
          (analyst_agent_node mk_context (agents k) s)
      else if n = ''human_feedback'' then
        (case next_after_feedback (human_feedback_node s) of
           Inl err \<Rightarrow> Some (Inl err)
         | Inr END \<Rightarrow> Some (Inr (human_feedback_node s, visited @ [n]))
         | Inr (Node m) \<Rightarrow>
             run_from mk_context agents m k (visited @ [n]) (human_feedback_node s))
      else Some (Inl (UnknownNode n)))"

declare run_from.simps [code]

definition run_workflow ::
  "(string option \<Rightarrow> exn + 'c) \<Rightarrow> (nat \<Rightarrow> ('c, 'p) agent) \<Rightarrow> 'p state \<Rightarrow>
   (graph_error + 'p state \<times> string list) option"
where
  "run_workflow mk_context agents s = run_from mk_context agents entry_point 0 [] s"

section \<open>The HTTP endpoints (api/api.py)\<close>

text \<open>
  JSON values, for the dictionaries the endpoints build and return. A dictionary is a
  list of key and value pairs in insertion order.
\<close>

datatype json =
  JNull | JBool bool | JInt int | JReal real | JStr string | JList "json list"
| JObj "(string \<times> json) list"

text \<open>
  What the client gets from an endpoint: an exception that no handler of the endpoint
  caught, an \<^verbatim>\<open>HTTPException\<close> with its status code and detail, or a response with
  its status code and body.
\<close>

datatype reply = Uncaught exn | HTTPError nat string | JSONResponse nat json

text \<open>An exception that leaves the endpoint function.\<close>

definition propagate :: "exn \<Rightarrow> reply" where
  "propagate e = (case exc_class e of HTTPException c d \<Rightarrow> HTTPError c d | _ \<Rightarrow> Uncaught e)"

definition lower_char :: "char \<Rightarrow> char" where
  "lower_char c =
     (let n = (of_char c :: nat) in if 65 \<le> n \<and> n \<le> 90 then char_of (n + 32) else c)"

definition lower :: "string \<Rightarrow> string" where
  "lower s = map lower_char s"

text \<open>Python's \<^verbatim>\<open>sub in s\<close> on strings.\<close>

fun contains :: "string \<Rightarrow> string \<Rightarrow> bool" where
  "contains sub [] = (sub = [])"
| "contains sub (c # cs) = (prefix sub (c # cs) \<or> contains sub cs)"

text \<open>
  The two outer handlers of \<^verbatim>\<open>analyze_script\<close>: an \<^verbatim>\<open>HTTPException\<close> is raised
  again as it is, any other exception is turned into one by the words of its message.
\<close>

definition on_exception :: "exn \<Rightarrow> reply" where
  "on_exception e =
     (case exc_class e of
        HTTPException c d \<Rightarrow> HTTPError c d
      | _ \<Rightarrow>
          (let error_message = exc_str e in
           if contains ''extract'' (lower error_message) then
             HTTPError 422 (''PDF extraction failed: '' @ error_message)
           else if contains ''validation'' (lower error_message) then
             HTTPError 422 (''Script validation failed: '' @ error_message)
           else if contains ''analysis'' (lower error_message) then
             HTTPError 500 (''Analysis failed: '' @ error_message)
           else HTTPError 500 (''Unexpected error: '' @ error_message)))"

text \<open>
  \<^verbatim>\<open>asyncio.wait_for\<close>: an awaitable is the time it needs and what it then yields.
  If it needs more than the timeout it is cancelled and \<^verbatim>\<open>TimeoutError\<close> is raised.
\<close>

definition wait_for :: "real \<times> (exn + 'a) \<Rightarrow> real \<Rightarrow> exn + 'a" where
  "wait_for aw timeout = (if timeout < fst aw then Inl (Exn TimeoutError []) else snd aw)"

record upload =
  filename :: string
  content :: string

record new_script =
  ns_filename :: string
  ns_original_filename :: string
  ns_file_size_bytes :: nat
  ns_analysis_data :: "(string \<times> json) list"
  ns_processing_time :: real
  ns_api_calls_used :: int

text \<open>
  The collaborators of the endpoint, none of them under api/api.py: the file validator,
  the name of the temporary file, the analysis (main.py) with the time it needs, the
  clock, the serializer and the database service. Each may raise. The service returns
  the identifier of the saved record or raises, and leaves a database behind in both
  cases.
\<close>

record ('p, 'db) services =
  validate_file :: "upload \<Rightarrow> exn + unit"
  validate_file_size :: "string \<Rightarrow> exn + nat"
  temp_name :: string
  run_optimized_script_analysis :: "string \<Rightarrow> real \<times> (exn + 'p state)"
  processing_time :: real
  timestamp :: string
  serialize :: "'p state \<Rightarrow> exn + (string \<times> json) list"
  create_analyzed_script :: "'db \<Rightarrow> new_script \<Rightarrow> (exn + string) \<times> 'db"

text \<open>\<^verbatim>\<open>round(x, 2)\<close>, on reals: the nearest multiple of a hundredth.\<close>

definition round2 :: "real \<Rightarrow> real" where
  "round2 x = real_of_int (round (x * 100)) / 100"

definition get_api_calls_used :: "'p state \<Rightarrow> int" where
  "get_api_calls_used result = (case api_calls_used result of None \<Rightarrow> 2 | Some n \<Rightarrow> n)"

definition response_data ::
  "('p, 'db) services \<Rightarrow> upload \<Rightarrow> nat \<Rightarrow> 'p state \<Rightarrow> (string \<times> json) list \<Rightarrow>
   (string \<times> json) list"
where
  "response_data sv file file_size result clean_result =
     [(''success'', JBool True),
      (''message'', JStr ''Script analysis completed successfully''),
      (''optimization_info'',
         JObj [(''actual_calls_used'', JInt (get_api_calls_used result)),
               (''expected_calls'', JInt 2)]),
      (''metadata'',
         JObj [(''filename'', JStr (filename file)),
               (''file_size_bytes'', JInt (int file_size)),
               (''processing_time_seconds'', JReal (round2 (processing_time sv))),
               (''timestamp'', JStr (timestamp sv)),
               (''api_calls_used'', JInt (get_api_calls_used result))]),
      (''data'',
         (case map_of clean_result ''data'' of Some d \<Rightarrow> d | None \<Rightarrow> JObj clean_result))]"

text \<open>The file that the \<^verbatim>\<open>finally\<close> block removes, when it exists.\<close>

definition cleanup :: "string \<Rightarrow> string option" where
  "cleanup temp_file_path = (if temp_file_path = [] then None else Some temp_file_path)"

text \<open>Lines 153 to 173: the optional save and the response.\<close>

definition save_and_respond ::
  "('p, 'db) services \<Rightarrow> upload \<Rightarrow> nat \<Rightarrow> 'p state \<Rightarrow> (string \<times> json) list \<Rightarrow> bool \<Rightarrow> 'db \<Rightarrow>
   reply \<times> 'db"
where
  "save_and_respond sv file file_size result clean_result save_to_db db =
     (if save_to_db then
        (case create_analyzed_script sv db
                \<lparr>ns_filename = filename file, ns_original_filename = filename file,
                 ns_file_size_bytes = file_size, ns_analysis_data = clean_result,
                 ns_processing_time = processing_time sv,
                 ns_api_calls_used = get_api_calls_used result\<rparr> of
           (Inr saved_id, db') \<Rightarrow>
             (JSONResponse 200
                (JObj (response_data sv file file_size result clean_result @
                       [(''database_id'', JStr saved_id)])), db')
         | (Inl db_error, db') \<Rightarrow>
             (JSONResponse 200
                (JObj (response_data sv file file_size result clean_result @
                       [(''database_error'', JStr (exc_str db_error))])), db'))
      else (JSONResponse 200 (JObj (response_data sv file file_size result clean_result)), db))"

text \<open>
  \<^verbatim>\<open>analyze_script\<close>: the reply, the database afterwards and the temporary file that
  the \<^verbatim>\<open>finally\<close> block removes. The validation of the serialized result (lines 128 to
  133) only logs: what it raises is dropped, so it has no branch here. Logging and
  errors of the file system are left out.
\<close>

definition analyze_script ::
  "('p, 'db) services \<Rightarrow> upload \<Rightarrow> bool \<Rightarrow> 'db \<Rightarrow> reply \<times> 'db \<times> string option"
where
  "analyze_script sv file save_to_db db =
     (case validate_file sv file of
        Inl e \<Rightarrow> (propagate e, db, None)
      | Inr _ \<Rightarrow>
          (case validate_file_size sv (content file) of
             Inl e \<Rightarrow> (on_exception e, db, None)
           | Inr file_size \<Rightarrow>
               (case wait_for (run_optimized_script_analysis sv (temp_name sv)) 300 of
                  Inl e \<Rightarrow>
                    (if exc_class e = TimeoutError then
                       (HTTPError 408 ''Analysis timed out. Please try with a smaller script.'',
                        db, cleanup (temp_name sv))
                     else (on_exception e, db, cleanup (temp_name sv)))
                | Inr result \<Rightarrow>
                    (case serialize sv result of
                       Inl e \<Rightarrow> (on_exception e, db, cleanup (temp_name sv))
                     | Inr clean_result \<Rightarrow>
                         (case save_and_respond sv file file_size result clean_result
                                 save_to_db db of
                            (r, db') \<Rightarrow> (r, db', cleanup (temp_name sv)))))))"

section \<open>Listing the analyzed scripts\<close>

text \<open>
  The rows of the store (the model class \<^verbatim>\<open>AnalyzedScript\<close>) are of a type \<open>'row\<close>;
  what the queries need of a row is given by \<open>row_ops\<close>.
\<close>

record 'row row_ops =
  to_summary_dict :: "'row \<Rightarrow> json"
  row_status :: "'row \<Rightarrow> string"
  row_matches :: "string \<Rightarrow> 'row \<Rightarrow> bool"
  row_key :: "string \<Rightarrow> 'row \<Rightarrow> int"

text \<open>
  Modelled from the spec: the queries of \<^verbatim>\<open>AnalyzedScriptService\<close>
  (database/services.py, not among the sources). The spec says of them: pagination
  (skip, limit), ordering, optional status filter, optional search term. The store is
  the list of its rows.
\<close>

definition svc_get_all_analyzed_scripts ::
  "'row row_ops \<Rightarrow> 'row list \<Rightarrow> nat \<Rightarrow> nat \<Rightarrow> string \<Rightarrow> string \<Rightarrow> 'row list"
where
  "svc_get_all_analyzed_scripts ops db skip limit order_by order_direction =
     take limit (drop skip
       (if order_direction = ''desc'' then rev (sort_key (row_key ops order_by) db)
        else sort_key (row_key ops order_by) db))"

text \<open>Modelled from the spec: the number of rows, of a status when one is given.\<close>

definition get_scripts_count :: "'row row_ops \<Rightarrow> 'row list \<Rightarrow> string option \<Rightarrow> nat" where
  "get_scripts_count ops db st =
     (case st of
        None \<Rightarrow> length db
      | Some v \<Rightarrow> length (filter (\<lambda>r. row_status ops r = v) db))"

text \<open>Modelled from the spec: a page of the rows of a status.\<close>

definition get_scripts_by_status ::
  "'row row_ops \<Rightarrow> 'row list \<Rightarrow> string \<Rightarrow> nat \<Rightarrow> nat \<Rightarrow> 'row list"
where
  "get_scripts_by_status ops db st skip limit =
     take limit (drop skip (filter (\<lambda>r. row_status ops r = st) db))"

text \<open>Modelled from the spec: a page of the rows that the search term matches.\<close>

definition search_scripts ::
  "'row row_ops \<Rightarrow> 'row list \<Rightarrow> string \<Rightarrow> nat \<Rightarrow> nat \<Rightarrow> 'row list"
where
  "search_scripts ops db search_term skip limit =
     take limit (drop skip (filter (row_matches ops search_term) db))"

text \<open>An optional string that is neither \<^verbatim>\<open>None\<close> nor empty, as \<^verbatim>\<open>if search:\<close> tests it.\<close>

definition truthy :: "string option \<Rightarrow> string option" where
  "truthy v = (case v of None \<Rightarrow> None | Some s \<Rightarrow> if s = [] then None else Some s)"

definition json_of_opt :: "string option \<Rightarrow> json" where
  "json_of_opt v = (case v of None \<Rightarrow> JNull | Some s \<Rightarrow> JStr s)"

definition page :: "'row row_ops \<Rightarrow> 'row list \<Rightarrow> nat \<Rightarrow> nat \<Rightarrow> nat \<Rightarrow> string option \<Rightarrow> json" where
  "page ops scripts total_count skip limit search =
     JObj [(''success'', JBool True),
           (''data'', JList (map (to_summary_dict ops) scripts)),
           (''pagination'',
              JObj [(''total'', JInt (int total_count)),
                    (''skip'', JInt (int skip)),
                    (''limit'', JInt (int limit)),
                    (''returned'', JInt (int (length scripts))),
                    (''has_more'', JBool (skip + length scripts < total_count))]),
           (''search_term'', json_of_opt search)]"

text \<open>
  \<^verbatim>\<open>get_all_analyzed_scripts\<close>, the same in api/api.py and api/api_2.py. The
  framework has checked \<open>0 \<le> skip\<close> and \<open>1 \<le> limit \<le> 1000\<close> before the body runs, so
  both are natural numbers here. The queries as modelled do not raise, so the handler
  that answers an exception with the error 500 has no branch.
\<close>

definition get_all_analyzed_scripts ::
  "'row row_ops \<Rightarrow> nat \<Rightarrow> nat \<Rightarrow> string \<Rightarrow> string \<Rightarrow> string option \<Rightarrow> string option \<Rightarrow>
   'row list \<Rightarrow> json"
where
  "get_all_analyzed_scripts ops skip limit order_by order_direction status_filter search db =
     (case truthy search of
        Some search_term \<Rightarrow>
          (let scripts = search_scripts ops db search_term skip limit
           in page ops scripts (length scripts) skip limit search)
      | None \<Rightarrow>
          (case truthy status_filter of
             Some st \<Rightarrow>
               (let scripts = get_scripts_by_status ops db st skip limit
                in page ops scripts (get_scripts_count ops db (Some st)) skip limit search)
           | None \<Rightarrow>
               (let scripts =
                      svc_get_all_analyzed_scripts ops db skip limit order_by order_direction
                in page ops scripts (get_scripts_count ops db None) skip limit search)))"

text \<open>A field of the body of a reply, when the reply is a response with a dictionary.\<close>

definition body_field :: "reply \<Rightarrow> string \<Rightarrow> json option" where
  "body_field r k = (case r of JSONResponse c (JObj kvs) \<Rightarrow> map_of kvs k | _ \<Rightarrow> None)"

section \<open>Concrete inputs\<close>

definition fresh_state :: "nat state" where
  "fresh_state =
     \<lparr>pdf_path = Some ''script.pdf'', status = None, comprehensive_analysis = None,
      errors = None, api_calls_used = None, feedback_required = None, feedback_text = None\<rparr>"

definition looping_state :: "nat state" where
  "looping_state = fresh_state\<lparr>feedback_required := Some True\<rparr>"

definition finished_state :: "nat state" where
  "finished_state =
     fresh_state\<lparr>comprehensive_analysis := Some 7, status := Some ''analysis_completed'',
       api_calls_used := Some 2, feedback_required := Some False, feedback_text := Some []\<rparr>"

definition context_of :: "string option \<Rightarrow> exn + string option" where
  "context_of p = Inr p"

text \<open>An agent without \<^verbatim>\<open>run_async\<close> whose \<^verbatim>\<open>run\<close> fails on the document.\<close>

definition broken_agent :: "(string option, nat) agent" where
  "broken_agent =
     \<lparr>type_name = ''Agent'', run_async = None,
      run = Some (\<lambda>prompt deps. Inl (Exn OtherException ''extraction failed: corrupt PDF'')),
      call = None\<rparr>"

text \<open>An agent whose \<^verbatim>\<open>run_async\<close> raises a plain error and whose \<^verbatim>\<open>run\<close> works.\<close>

definition flaky_agent :: "(string option, nat) agent" where
  "flaky_agent =
     \<lparr>type_name = ''Agent'',
      run_async = Some (\<lambda>prompt deps. Inl (Exn OtherException ''connection reset'')),
      run = Some (\<lambda>prompt deps. Inr (AgentResult (Some 7) None 0)),
      call = None\<rparr>"

text \<open>An agent that only has \<^verbatim>\<open>run\<close>.\<close>

definition old_agent :: "(string option, nat) agent" where
  "old_agent =
     \<lparr>type_name = ''Agent'', run_async = None,
      run = Some (\<lambda>prompt deps. Inr (AgentResult (Some 7) None 0)),
      call = None\<rparr>"

definition pdf_upload :: upload where
  "pdf_upload = \<lparr>filename = ''script.pdf'', content = ''%PDF''\<rparr>"

text \<open>
  Services whose analysis needs \<open>d\<close> time units and whose database refuses every save;
  the database is the list of the saved identifiers.
\<close>

definition failing_db_services :: "real \<Rightarrow> (nat, string list) services" where
  "failing_db_services d =
     \<lparr>validate_file = (\<lambda>f. Inr ()),
      validate_file_size = (\<lambda>c. Inr (length c)),
      temp_name = ''/tmp/tmpab12.pdf'',
      run_optimized_script_analysis = (\<lambda>p. (d, Inr finished_state)),
      processing_time = d,
      timestamp = ''2025-01-01T00:00:00'',
      serialize = (\<lambda>s. Inr [(''status'', JStr ''analysis_completed'')]),
      create_analyzed_script = (\<lambda>db a. (Inl (Exn OtherException ''connection refused''), db))\<rparr>"

text \<open>The same services with a database that saves: it appends the new identifier.\<close>

definition saving_db_services :: "real \<Rightarrow> (nat, string list) services" where
  "saving_db_services d =
     (failing_db_services d)
       \<lparr>create_analyzed_script := (\<lambda>db a. (Inr ''id-1'', db @ [''id-1'']))\<rparr>"

section \<open>Helper lemmas\<close>

lemma feedback_routes_to_end: "should_continue_or_end (human_feedback_node s) = ''END''"
  by (simp add: should_continue_or_end_def human_feedback_node_def Let_def)

lemma next_after_feedback_cases:
  "next_after_feedback s =
     (if feedback_required s = Some True then Inl (KeyError ''unified_analysis'') else Inr END)"
  by (simp add: next_after_feedback_def should_continue_or_end_def conditional_edges_def
      split: option.split)

lemma next_after_feedback_end: "next_after_feedback (human_feedback_node s) = Inr END"
  by (simp add: next_after_feedback_cases human_feedback_node_def Let_def)

lemma broken_agent_raises:
  "try_analysis context_of broken_agent (pdf_path fresh_state) =
     Inl (Exn OtherException ''extraction failed: corrupt PDF'')"
  by (simp add: try_analysis_def context_of_def broken_agent_def execute_analysis_def
      call_run_async_def call_run_def no_attribute_def)

section \<open>The analysis node\<close>

text \<open>
  C1. For every context constructor, agent and input state (hence every input path), the
  state that the analysis node returns satisfies exactly one of: the analysis is present
  and \<open>api_calls_used\<close> is 2; the error list is non-empty and \<open>api_calls_used\<close> is 1.
\<close>

theorem analyst_agent_node_exactly_one:
  "(comprehensive_analysis (analyst_agent_node mk_context ag s) \<noteq> None \<and>
    api_calls_used (analyst_agent_node mk_context ag s) = Some 2) \<noteq>
   (get_errors (analyst_agent_node mk_context ag s) \<noteq> [] \<and>
    api_calls_used (analyst_agent_node mk_context ag s) = Some 1)"
  by (simp add: analyst_agent_node_def get_errors_def split: sum.split)

text \<open>
  C4. When the \<^verbatim>\<open>try\<close> block of the analysis node raises \<open>e\<close> (the agent invocation,
  or the construction of its context), the node returns the input state with the message
  of \<open>e\<close> appended to its errors (an absent list counts as empty), with the status
  \<open>analysis_failed: \<close> followed by the message, and with \<open>api_calls_used\<close> 1; the path,
  the analysis, both feedback fields and every further field are those of the input.
\<close>

theorem analyst_agent_node_failure:
  assumes "try_analysis mk_context ag (pdf_path s) = Inl e"
  shows "errors (analyst_agent_node mk_context ag s) = Some (get_errors s @ [exc_str e]) \<and>
    status (analyst_agent_node mk_context ag s) = Some (''analysis_failed: '' @ exc_str e) \<and>
    api_calls_used (analyst_agent_node mk_context ag s) = Some 1 \<and>
    pdf_path (analyst_agent_node mk_context ag s) = pdf_path s \<and>
    comprehensive_analysis (analyst_agent_node mk_context ag s) = comprehensive_analysis s \<and>
    feedback_required (analyst_agent_node mk_context ag s) = feedback_required s \<and>
    feedback_text (analyst_agent_node mk_context ag s) = feedback_text s \<and>
    state.more (analyst_agent_node mk_context ag s) = state.more s"
  using assms by (simp add: analyst_agent_node_def)

theorem analyst_agent_node_failure_witness:
  "errors (analyst_agent_node context_of broken_agent fresh_state) =
     Some [''extraction failed: corrupt PDF''] \<and>
   status (analyst_agent_node context_of broken_agent fresh_state) =
     Some ''analysis_failed: extraction failed: corrupt PDF'' \<and>
   api_calls_used (analyst_agent_node context_of broken_agent fresh_state) = Some 1 \<and>
   pdf_path (analyst_agent_node context_of broken_agent fresh_state) = Some ''script.pdf''"
  using analyst_agent_node_failure [OF broken_agent_raises]
  by (simp add: get_errors_def fresh_state_def)

text \<open>
  C6, as amended. The three conventions are tried in the order \<^verbatim>\<open>run_async\<close>,
  \<^verbatim>\<open>run\<close>, direct call, and the next one is tried only when the one before raised
  \<^verbatim>\<open>AttributeError\<close>: the outcome of the chain is the outcome of the first
  convention that does not raise \<^verbatim>\<open>AttributeError\<close> (of the direct call when both
  methods do). When neither method raises anything but \<^verbatim>\<open>AttributeError\<close>, that is
  the first convention that succeeds, as the specification has it.
\<close>

theorem execute_analysis_first_without_attribute_error:
  "execute_analysis ag prompt deps =
     (if \<not> raises_attribute_error (call_run_async ag prompt deps)
        then call_run_async ag prompt deps
      else if \<not> raises_attribute_error (call_run ag prompt deps)
        then call_run ag prompt deps
      else call_direct ag prompt deps) \<and>
   (\<not> raises_other (call_run_async ag prompt deps) \<and> \<not> raises_other (call_run ag prompt deps)
      \<longrightarrow> execute_analysis ag prompt deps = first_that_succeeds ag prompt deps)"
  by (simp add: execute_analysis_def first_that_succeeds_def raises_attribute_error_def
      raises_other_def split: sum.split)

theorem execute_analysis_first_without_attribute_error_witness:
  "\<not> raises_other (call_run_async old_agent [] None) \<and>
   \<not> raises_other (call_run old_agent [] None) \<and>
   execute_analysis old_agent [] None = Inr (AgentResult (Some 7) None 0) \<and>
   first_that_succeeds old_agent [] None = Inr (AgentResult (Some 7) None 0)"
  using execute_analysis_first_without_attribute_error [of old_agent "[]" None]
  by (simp add: raises_other_def raises_attribute_error_def call_run_async_def call_run_def
      old_agent_def no_attribute_def first_that_succeeds_def)

text \<open>
  C6, as stated, fails: the \<^verbatim>\<open>run_async\<close> of \<open>flaky_agent\<close> raises an error that is not
  an \<^verbatim>\<open>AttributeError\<close>, so \<^verbatim>\<open>run\<close>, the first convention that succeeds, is never
  tried and the chain raises.
\<close>

theorem execute_analysis_not_first_success:
  "first_that_succeeds flaky_agent [] None = Inr (AgentResult (Some 7) None 0) \<and>
   execute_analysis flaky_agent [] None = Inl (Exn OtherException ''connection reset'')"
  by (simp add: first_that_succeeds_def execute_analysis_def call_run_async_def call_run_def
      flaky_agent_def)

section \<open>The feedback node, the routing and the graph\<close>

text \<open>
  C10. Whatever the input state, the feedback node returns a state whose status is
  \<open>analysis_completed\<close> and whose \<open>feedback_required\<close> is false, and it leaves the errors
  as they are. So when the analysis failed with \<open>e\<close> and the analysis node had set the
  status \<open>analysis_failed: \<close> and the message, the state after the feedback node has the
  status \<open>analysis_completed\<close> and a non-empty error list.
\<close>

theorem human_feedback_node_reports_completed:
  "status (human_feedback_node s) = Some ''analysis_completed'' \<and>
   feedback_required (human_feedback_node s) = Some False \<and>
   errors (human_feedback_node s) = errors s \<and>
   (try_analysis mk_context ag (pdf_path s) = Inl e \<longrightarrow>
      status (analyst_agent_node mk_context ag s) = Some (''analysis_failed: '' @ exc_str e) \<and>
      status (human_feedback_node (analyst_agent_node mk_context ag s)) =
        Some ''analysis_completed'' \<and>
      get_errors (human_feedback_node (analyst_agent_node mk_context ag s)) \<noteq> [])"
  by (simp add: human_feedback_node_def Let_def analyst_agent_node_def get_errors_def)

theorem human_feedback_node_reports_completed_witness:
  "status (analyst_agent_node context_of broken_agent fresh_state) =
     Some ''analysis_failed: extraction failed: corrupt PDF'' \<and>
   status (human_feedback_node (analyst_agent_node context_of broken_agent fresh_state)) =
     Some ''analysis_completed'' \<and>
   get_errors (human_feedback_node (analyst_agent_node context_of broken_agent fresh_state)) =
     [''extraction failed: corrupt PDF'']"
  using human_feedback_node_reports_completed
    [of fresh_state context_of broken_agent "Exn OtherException ''extraction failed: corrupt PDF''"]
    broken_agent_raises
  by (simp add: human_feedback_node_def Let_def analyst_agent_node_def get_errors_def
      fresh_state_def)

text \<open>
  C5. The routing function returns, for every state, one of the two distinct values
  \<open>unified_analysis\<close> and \<open>END\<close>; the value is a function of the field
  \<open>feedback_required\<close> alone (\<open>END\<close> when the field is absent), so two states that agree
  on this field get the same value.
\<close>

theorem should_continue_or_end_total:
  "(should_continue_or_end s = ''unified_analysis'' \<or> should_continue_or_end s = ''END'') \<and>
   ''unified_analysis'' \<noteq> ''END'' \<and>
   should_continue_or_end s =
     (if feedback_required s = Some True then ''unified_analysis'' else ''END'') \<and>
   (feedback_required s = feedback_required s' \<longrightarrow>
      should_continue_or_end s = should_continue_or_end s')"
  by (simp add: should_continue_or_end_def split: option.split)

theorem should_continue_or_end_total_witness:
  "feedback_required fresh_state = feedback_required (fresh_state\<lparr>status := Some ''x''\<rparr>) \<and>
   should_continue_or_end fresh_state =
     should_continue_or_end (fresh_state\<lparr>status := Some ''x''\<rparr>) \<and>
   should_continue_or_end fresh_state = ''END''"
  using should_continue_or_end_total [of fresh_state "fresh_state\<lparr>status := Some ''x''\<rparr>"]
  by (simp add: fresh_state_def should_continue_or_end_def)

text \<open>
  C3, at a state whose \<open>feedback_required\<close> is true: the routing function returns
  \<open>unified_analysis\<close>, which is not a key of the mapping of the conditional edge (its
  keys are \<open>END\<close> and \<open>analyst_agent\<close>), so the edge does not lead back to the analysis
  node: the lookup fails.
\<close>

theorem routing_value_not_registered:
  "feedback_required looping_state = Some True \<and>
   should_continue_or_end looping_state = ''unified_analysis'' \<and>
   map_of conditional_edges (should_continue_or_end looping_state) = None \<and>
   next_after_feedback looping_state = Inl (KeyError ''unified_analysis'')"
  by (simp add: looping_state_def fresh_state_def should_continue_or_end_def
      next_after_feedback_def conditional_edges_def)

text \<open>
  C2. For every initial state, and whatever the agent and the context constructor do,
  the run of the graph returns, without error, after the analysis node and the feedback
  node have each run once, in this order.
\<close>

theorem run_workflow_one_pass:
  "run_workflow mk_context agents s =
     Some (Inr (human_feedback_node (analyst_agent_node mk_context (agents 0) s),
                [''analyst_agent'', ''human_feedback'']))"
proof -
  have second: "run_from mk_context agents ''human_feedback'' k visited t =
      Some (Inr (human_feedback_node t, visited @ [''human_feedback'']))" for k visited t
    by (subst run_from.simps) (simp add: next_after_feedback_end)
  show ?thesis
    unfolding run_workflow_def entry_point_def
    by (subst run_from.simps) (simp add: second)
qed

section \<open>The analysis endpoint\<close>

text \<open>
  C7. When the file passes validation, the analysis returns within the timeout, its
  result is serialized, saving is asked for and the database service raises
  \<open>db_error\<close>, the endpoint answers with status 200 and the body of a successful
  analysis (\<open>success\<close> true, the data of the analysis), to which the message of
  \<open>db_error\<close> is added under \<open>database_error\<close>; there is no \<open>database_id\<close>.
\<close>

theorem analyze_script_database_error:
  assumes "validate_file sv file = Inr ()"
    and "validate_file_size sv (content file) = Inr file_size"
    and "run_optimized_script_analysis sv (temp_name sv) = (d, Inr result)"
    and "d \<le> 300"
    and "serialize sv result = Inr clean_result"
    and "create_analyzed_script sv db
           \<lparr>ns_filename = filename file, ns_original_filename = filename file,
            ns_file_size_bytes = file_size, ns_analysis_data = clean_result,
            ns_processing_time = processing_time sv,
            ns_api_calls_used = get_api_calls_used result\<rparr> = (Inl db_error, db')"
  shows "fst (analyze_script sv file True db) =
      JSONResponse 200
        (JObj (response_data sv file file_size result clean_result @
               [(''database_error'', JStr (exc_str db_error))])) \<and>
    body_field (fst (analyze_script sv file True db)) ''success'' = Some (JBool True) \<and>
    body_field (fst (analyze_script sv file True db)) ''data'' =
      Some (case map_of clean_result ''data'' of Some x \<Rightarrow> x | None \<Rightarrow> JObj clean_result) \<and>
    body_field (fst (analyze_script sv file True db)) ''database_error'' =
      Some (JStr (exc_str db_error)) \<and>
    body_field (fst (analyze_script sv file True db)) ''database_id'' = None"
proof -
  have run: "analyze_script sv file True db =
      (JSONResponse 200
         (JObj (response_data sv file file_size result clean_result @
                [(''database_error'', JStr (exc_str db_error))])), db', cleanup (temp_name sv))"
    using assms by (simp add: analyze_script_def wait_for_def save_and_respond_def)
  show ?thesis
    unfolding run by (simp add: body_field_def response_data_def)
qed

theorem analyze_script_database_error_witness:
  "fst (analyze_script (failing_db_services 12) pdf_upload True []) =
     JSONResponse 200
       (JObj (response_data (failing_db_services 12) pdf_upload 4 finished_state
                [(''status'', JStr ''analysis_completed'')] @
              [(''database_error'', JStr ''connection refused'')])) \<and>
   body_field (fst (analyze_script (failing_db_services 12) pdf_upload True []))
     ''database_error'' = Some (JStr ''connection refused'')"
proof -
  have h1: "validate_file (failing_db_services 12) pdf_upload = Inr ()"
    by (simp add: failing_db_services_def)
  have h2: "validate_file_size (failing_db_services 12) (content pdf_upload) = Inr 4"
    by (simp add: failing_db_services_def pdf_upload_def)
  have h3: "run_optimized_script_analysis (failing_db_services 12)
      (temp_name (failing_db_services 12)) = (12, Inr finished_state)"
    by (simp add: failing_db_services_def)
  have h4: "(12::real) \<le> 300"
    by simp
  have h5: "serialize (failing_db_services 12) finished_state =
      Inr [(''status'', JStr ''analysis_completed'')]"
    by (simp add: failing_db_services_def)
  have h6: "create_analyzed_script (failing_db_services 12) []
      \<lparr>ns_filename = filename pdf_upload, ns_original_filename = filename pdf_upload,
       ns_file_size_bytes = 4, ns_analysis_data = [(''status'', JStr ''analysis_completed'')],
       ns_processing_time = processing_time (failing_db_services 12),
       ns_api_calls_used = get_api_calls_used finished_state\<rparr> =
      (Inl (Exn OtherException ''connection refused''), [])"
    by (simp add: failing_db_services_def)
  from analyze_script_database_error [OF h1 h2 h3 h4 h5 h6] show ?thesis
    by (simp add: body_field_def response_data_def)
qed

text \<open>
  C8. When the file passes validation and the analysis needs more than 300 time units,
  the endpoint raises the HTTP error 408, and the database is the one it was given: no
  record is created, whatever the database service would do, and also when saving was
  asked for.
\<close>

theorem analyze_script_timeout:
  assumes "validate_file sv file = Inr ()"
    and "validate_file_size sv (content file) = Inr file_size"
    and "300 < fst (run_optimized_script_analysis sv (temp_name sv))"
  shows "analyze_script (sv\<lparr>create_analyzed_script := create\<rparr>) file save_to_db db =
      (HTTPError 408 ''Analysis timed out. Please try with a smaller script.'', db,
       cleanup (temp_name sv))"
  using assms by (simp add: analyze_script_def wait_for_def)

theorem analyze_script_timeout_witness:
  "analyze_script (saving_db_services 301) pdf_upload True [] =
     (HTTPError 408 ''Analysis timed out. Please try with a smaller script.'', [],
      Some ''/tmp/tmpab12.pdf'')"
proof -
  have h1: "validate_file (failing_db_services 301) pdf_upload = Inr ()"
    by (simp add: failing_db_services_def)
  have h2: "validate_file_size (failing_db_services 301) (content pdf_upload) = Inr 4"
    by (simp add: failing_db_services_def pdf_upload_def)
  have h3: "300 < fst (run_optimized_script_analysis (failing_db_services 301)
      (temp_name (failing_db_services 301)))"
    by (simp add: failing_db_services_def)
  from analyze_script_timeout [OF h1 h2 h3] show ?thesis
    by (simp add: saving_db_services_def cleanup_def failing_db_services_def)
qed

section \<open>Listing on an empty store\<close>

text \<open>
  C9. On an empty store, listing with skip 0 and limit 10 returns, for every ordering,
  status filter and search term, a page whose data list is empty and whose pagination
  has total 0, returned 0 and \<open>has_more\<close> false.
\<close>

theorem get_all_analyzed_scripts_empty_store:
  "get_all_analyzed_scripts ops 0 10 order_by order_direction status_filter search [] =
     JObj [(''success'', JBool True),
           (''data'', JList []),
           (''pagination'',
              JObj [(''total'', JInt 0), (''skip'', JInt 0), (''limit'', JInt 10),
                    (''returned'', JInt 0), (''has_more'', JBool False)]),
           (''search_term'', json_of_opt search)]"
  by (simp add: get_all_analyzed_scripts_def page_def search_scripts_def
      get_scripts_by_status_def svc_get_all_analyzed_scripts_def get_scripts_count_def
      split: option.split)

end
